theory Spec2Isabelle
  imports Main "HOL-Library.AList"
begin

section \<open>The MVola API wrapper (src/main.ts)\<close>

text \<open>
  The wrapper is one request handler, \<open>fetch\<close>, and the two functions it calls,
  \<open>authenticateMvola\<close> and \<open>initiateMvolaPayment\<close>. The handler keeps no state: what it
  answers depends on the inbound request and on what the platform answers (the environment
  variables, \<open>btoa\<close>, the global \<open>fetch\<close>, \<open>crypto.randomUUID\<close>, the clock). The platform
  is a record of these. A function that calls the global \<open>fetch\<close> returns, beside its
  result, the list of the calls it made, in call order, each call being the arguments handed to
  \<open>fetch\<close>. A JavaScript exception is a value \<open>Inl e\<close> of a sum, so that each \<open>try\<close> and
  \<open>catch\<close> of the source is a case distinction. Console output is not part of the model.

  The source casts what \<open>JSON.parse\<close> yields to its interfaces without a check, so the
  values here are untyped JavaScript values, and the reads and writes of properties behave as
  JavaScript has them on any value. Strings are HOL strings, one character for one unit of the
  text; the two pictographs of the source are written as their UTF-8 bytes. A body that is
  JSON text is kept as the value the text denotes.
\<close>

subsection \<open>JavaScript values\<close>

datatype exn = Exn (message: string)

text \<open>
  What \<open>JSON.parse\<close> yields, plus \<open>undefined\<close>. A number is kept as the text that
  JavaScript's number-to-string conversion gives for it. An object is the list of its own
  properties in order; \<open>map_of\<close> looks a property up.
\<close>

datatype jsval =
    Undefined
  | Null
  | Bool bool
  | Num string
  | Str string
  | Arr "jsval list"
  | Obj "(string \<times> jsval) list"

definition bindE :: "exn + 'a \<Rightarrow> ('a \<Rightarrow> exn + 'b) \<Rightarrow> exn + 'b" where
  "bindE m f = (case m of Inl e \<Rightarrow> Inl e | Inr x \<Rightarrow> f x)"

fun sequence :: "(exn + 'a) list \<Rightarrow> exn + 'a list" where
  "sequence [] = Inr []"
| "sequence (Inl e # rs) = Inl e"
| "sequence (Inr x # rs) = (case sequence rs of Inl e \<Rightarrow> Inl e | Inr xs \<Rightarrow> Inr (x # xs))"

fun join :: "string \<Rightarrow> string list \<Rightarrow> string" where
  "join sep [] = []"
| "join sep [s] = s"
| "join sep (s # t # ss) = s @ sep @ join sep (t # ss)"

function decimal :: "nat \<Rightarrow> string" where
  "decimal n =
     (if n < 10 then [''0123456789'' ! n]
      else decimal (n div 10) @ [''0123456789'' ! (n mod 10)])"
  by pat_completeness auto
termination
  by (relation "measure id") auto

text \<open>The test \<open>!v\<close> and \<open>if (v)\<close>: \<open>truthy v\<close> is \<open>!!v\<close>.\<close>

fun truthy :: "jsval \<Rightarrow> bool" where
  "truthy Undefined = False"
| "truthy Null = False"
| "truthy (Bool b) = b"
| "truthy (Num n) = (n \<noteq> ''0'' \<and> n \<noteq> ''NaN'')"
| "truthy (Str s) = (s \<noteq> [])"
| "truthy (Arr xs) = True"
| "truthy (Obj kvs) = True"

text \<open>\<open>a && b\<close> is \<open>a\<close> when \<open>a\<close> is falsy, else \<open>b\<close>; \<open>a || b\<close> is \<open>a\<close> when \<open>a\<close> is
  truthy, else \<open>b\<close>.\<close>

definition js_and :: "jsval \<Rightarrow> jsval \<Rightarrow> jsval" where
  "js_and a b = (if truthy a then b else a)"

definition js_or :: "jsval \<Rightarrow> jsval \<Rightarrow> jsval" where
  "js_or a b = (if truthy a then a else b)"

text \<open>
  \<open>v.k\<close> for a name \<open>k\<close> that no built-in prototype defines (the source reads
  \<open>access_token\<close>, \<open>expires_in\<close>, \<open>debitParty\<close> and \<open>value\<close>): the own property of an
  object, \<open>undefined\<close> on any other value, a TypeError on \<open>undefined\<close> and \<open>null\<close>.
\<close>

fun get_prop :: "jsval \<Rightarrow> string \<Rightarrow> exn + jsval" where
  "get_prop Undefined k =
     Inl (Exn (''Cannot read properties of undefined (reading '' @ [CHR 0x27] @ k @ [CHR 0x27] @ '')''))"
| "get_prop Null k =
     Inl (Exn (''Cannot read properties of null (reading '' @ [CHR 0x27] @ k @ [CHR 0x27] @ '')''))"
| "get_prop (Obj kvs) k = Inr (case map_of kvs k of None \<Rightarrow> Undefined | Some v \<Rightarrow> v)"
| "get_prop v k = Inr Undefined"

text \<open>\<open>v[0]\<close>: the first element of an array, the first unit of a string, the property \<open>0\<close>
  of an object; \<open>undefined\<close> where there is none.\<close>

fun get_index0 :: "jsval \<Rightarrow> exn + jsval" where
  "get_index0 Undefined = Inl (Exn ''Cannot read properties of undefined (reading '0')'')"
| "get_index0 Null = Inl (Exn ''Cannot read properties of null (reading '0')'')"
| "get_index0 (Arr xs) = Inr (case xs of [] \<Rightarrow> Undefined | x # _ \<Rightarrow> x)"
| "get_index0 (Str s) = Inr (case s of [] \<Rightarrow> Undefined | c # _ \<Rightarrow> Str [c])"
| "get_index0 (Obj kvs) = Inr (case map_of kvs ''0'' of None \<Rightarrow> Undefined | Some v \<Rightarrow> v)"
| "get_index0 v = Inr Undefined"

text \<open>
  \<open>v.k = x\<close> in strict mode (the source is an ES module), for a name \<open>k\<close> that is not an
  array index: an object gets or updates its own property (a new one comes last). An array
  takes the property too, but neither \<open>JSON.stringify\<close> nor a read of another name sees it,
  so the array is returned as it is. Any other value raises a TypeError.
\<close>

fun set_prop :: "jsval \<Rightarrow> string \<Rightarrow> jsval \<Rightarrow> exn + jsval" where
  "set_prop Undefined k x =
     Inl (Exn (''Cannot set properties of undefined (setting '' @ [CHR 0x27] @ k @ [CHR 0x27] @ '')''))"
| "set_prop Null k x =
     Inl (Exn (''Cannot set properties of null (setting '' @ [CHR 0x27] @ k @ [CHR 0x27] @ '')''))"
| "set_prop (Bool b) k x =
     Inl (Exn (''Cannot create property '' @ [CHR 0x27] @ k @ [CHR 0x27] @ '' on boolean ''
               @ [CHR 0x27] @ (if b then ''true'' else ''false'') @ [CHR 0x27]))"
| "set_prop (Num n) k x =
     Inl (Exn (''Cannot create property '' @ [CHR 0x27] @ k @ [CHR 0x27] @ '' on number ''
               @ [CHR 0x27] @ n @ [CHR 0x27]))"
| "set_prop (Str s) k x =
     Inl (Exn (''Cannot create property '' @ [CHR 0x27] @ k @ [CHR 0x27] @ '' on string ''
               @ [CHR 0x27] @ s @ [CHR 0x27]))"
| "set_prop (Arr xs) k x = Inr (Arr xs)"
| "set_prop (Obj kvs) k x = Inr (Obj (AList.update k x kvs))"

text \<open>
  The conversion to string of a template literal \<open>`${v}`\<close>. An array joins its elements with
  commas (\<open>undefined\<close> and \<open>null\<close> give the empty string); an object is
  \<open>[object Object]\<close>, unless it has an own property \<open>toString\<close>, which JSON can only make a
  value that is not callable: then the conversion raises a TypeError.
\<close>

fun ToString :: "jsval \<Rightarrow> exn + string" where
  "ToString Undefined = Inr ''undefined''"
| "ToString Null = Inr ''null''"
| "ToString (Bool b) = Inr (if b then ''true'' else ''false'')"
| "ToString (Num n) = Inr n"
| "ToString (Str s) = Inr s"
| "ToString (Arr xs) =
     (case sequence (map (\<lambda>x. if x = Undefined \<or> x = Null then Inr [] else ToString x) xs) of
        Inl e \<Rightarrow> Inl e
      | Inr ss \<Rightarrow> Inr (join '','' ss))"
| "ToString (Obj kvs) =
     (if map_of kvs ''toString'' = None then Inr ''[object Object]''
      else Inl (Exn ''Cannot convert object to primitive value''))"

text \<open>
  The value that the text \<open>JSON.stringify(v)\<close> denotes: a property whose value is
  \<open>undefined\<close> is left out, \<open>undefined\<close> in an array and a number that is not finite
  become \<open>null\<close>.
\<close>

fun JSON_value :: "jsval \<Rightarrow> jsval" where
  "JSON_value (Arr xs) = Arr (map (\<lambda>x. if x = Undefined then Null else JSON_value x) xs)"
| "JSON_value (Obj kvs) =
     Obj (map (\<lambda>kv. (fst kv, JSON_value (snd kv))) (filter (\<lambda>kv. snd kv \<noteq> Undefined) kvs))"
| "JSON_value (Num n) = (if n \<in> {''NaN'', ''Infinity'', ''-Infinity''} then Null else Num n)"
| "JSON_value v = v"

subsection \<open>Requests, responses and the platform\<close>

text \<open>A body: none, plain text, JSON text (by its value), or form fields (URLSearchParams).\<close>

datatype body =
    NoBody
  | Text string
  | JsonText jsval
  | Form "(string \<times> string) list"

text \<open>\<open>JSON.stringify(v)\<close> handed over as a body; \<open>JSON.stringify(undefined)\<close> is
  \<open>undefined\<close>, which is no body.\<close>

definition JSON_stringify :: "jsval \<Rightarrow> body" where
  "JSON_stringify v = (if v = Undefined then NoBody else JsonText (JSON_value v))"

text \<open>An outbound call: the arguments of the global \<open>fetch\<close>.\<close>

record fetch_request =
  req_url :: string
  req_method :: string
  req_headers :: "(string \<times> string) list"
  req_body :: body

text \<open>What the global \<open>fetch\<close> resolves with: the status, and what \<open>response.json()\<close>
  gives (an exception when the body is not JSON).\<close>

record fetch_response =
  fr_status :: nat
  fr_json :: "exn + jsval"

datatype fetch_outcome = Rejected exn | Resolved fetch_response

definition ok :: "fetch_response \<Rightarrow> bool" where
  "ok r = (200 \<le> fr_status r \<and> fr_status r \<le> 299)"

record platform =
  Deno_env_get :: "string \<Rightarrow> string option"
  btoa :: "string \<Rightarrow> exn + string"
  global_fetch :: "fetch_request \<Rightarrow> fetch_outcome"
  crypto_randomUUID :: string
  Date_toISOString :: string

text \<open>The inbound request: \<open>request.method\<close>, the parsed \<open>request.url\<close>, and what
  \<open>request.json()\<close> gives.\<close>

record URL =
  origin :: string
  pathname :: string
  search :: string

record request =
  request_method :: string
  url :: URL
  json :: "exn + jsval"

record response =
  status :: nat
  headers :: "(string \<times> string) list"
  body :: body

text \<open>
  \<open>new Response(body, {status, headers})\<close>: the constructor raises a RangeError for a status
  outside 200..599 other than 101, and a TypeError for a body on a null-body status.
\<close>

definition new_Response :: "body \<Rightarrow> nat \<Rightarrow> (string \<times> string) list \<Rightarrow> exn + response" where
  "new_Response b st hs =
     (if (st < 200 \<or> 599 < st) \<and> st \<noteq> 101 then
        Inl (Exn (''The status provided ('' @ decimal st
                  @ '') is not equal to 101 and outside the range [200, 599]''))
      else if b \<noteq> NoBody \<and> st \<in> {101, 204, 205, 304} then
        Inl (Exn ''Response with null body status cannot have body'')
      else Inr \<lparr>status = st, headers = hs, body = b\<rparr>)"

subsection \<open>Configuration\<close>

record config =
  BASE_URL :: string
  TOKEN_ENDPOINT :: string
  MERCHANT_PAY_ENDPOINT :: string
  CONSUMER_KEY :: string
  CONSUMER_SECRET :: string

text \<open>\<open>Deno.env.get(name) || ""\<close>: a variable that is not set is \<open>undefined\<close>.\<close>

definition env_or_empty :: "platform \<Rightarrow> string \<Rightarrow> string" where
  "env_or_empty P name =
     (case js_or (case Deno_env_get P name of None \<Rightarrow> Undefined | Some s \<Rightarrow> Str s) (Str []) of
        Str s \<Rightarrow> s
      | _ \<Rightarrow> [])"

definition MVOLA_CONFIG :: "platform \<Rightarrow> config" where
  "MVOLA_CONFIG P =
     \<lparr>BASE_URL = ''https://devapi.mvola.mg'',
      TOKEN_ENDPOINT = ''/token'',
      MERCHANT_PAY_ENDPOINT = ''/mvola/mm/transactions/type/merchantpay/1.0.0/'',
      CONSUMER_KEY = env_or_empty P ''MVOLA_CONSUMER_KEY'',
      CONSUMER_SECRET = env_or_empty P ''MVOLA_CONSUMER_SECRET''\<rparr>"

definition token_url :: "platform \<Rightarrow> string" where
  "token_url P = BASE_URL (MVOLA_CONFIG P) @ TOKEN_ENDPOINT (MVOLA_CONFIG P)"

definition merchant_pay_url :: "platform \<Rightarrow> string" where
  "merchant_pay_url P = BASE_URL (MVOLA_CONFIG P) @ MERCHANT_PAY_ENDPOINT (MVOLA_CONFIG P)"

subsection \<open>authenticateMvola\<close>

definition token_request :: "platform \<Rightarrow> string \<Rightarrow> fetch_request" where
  "token_request P credentials =
     \<lparr>req_url = token_url P,
      req_method = ''POST'',
      req_headers =
        [(''Authorization'', ''Basic '' @ credentials),
         (''Content-Type'', ''application/x-www-form-urlencoded''),
         (''Cache-Control'', ''no-cache'')],
      req_body = Form [(''grant_type'', ''client_credentials''), (''scope'', ''EXT_INT_MVOLA_SCOPE'')]\<rparr>"

text \<open>
  The result is the parsed body of the token response, or \<open>null\<close>: every exception of the
  \<open>try\<close> block, and a response that is not \<open>ok\<close>, end in \<open>return null\<close>. (On a
  response that is not \<open>ok\<close> the source reads \<open>response.text()\<close> for the console only:
  whether that read succeeds or raises, the result is \<open>null\<close>.)
\<close>

definition authenticateMvola :: "platform \<Rightarrow> jsval \<times> fetch_request list" where
  "authenticateMvola P =
     (case btoa P (CONSUMER_KEY (MVOLA_CONFIG P) @ '':'' @ CONSUMER_SECRET (MVOLA_CONFIG P)) of
        Inl e \<Rightarrow> (Null, [])
      | Inr credentials \<Rightarrow>
          (case global_fetch P (token_request P credentials) of
             Rejected e \<Rightarrow> (Null, [token_request P credentials])
           | Resolved response \<Rightarrow>
               if \<not> ok response then (Null, [token_request P credentials])
               else (case fr_json response of
                       Inl e \<Rightarrow> (Null, [token_request P credentials])
                     | Inr v \<Rightarrow> (v, [token_request P credentials]))))"

subsection \<open>initiateMvolaPayment\<close>

record payment_result =
  result_status :: nat
  result_data :: jsval

text \<open>The header object of the \<open>try\<close> block, its template literals evaluated in order.\<close>

definition payment_headers :: "platform \<Rightarrow> jsval \<Rightarrow> jsval \<Rightarrow> exn + (string \<times> string) list" where
  "payment_headers P paymentData accessToken =
     bindE (ToString accessToken) (\<lambda>token.
     bindE (get_prop paymentData ''debitParty'') (\<lambda>debitParty.
     bindE (get_index0 debitParty) (\<lambda>party.
     bindE (get_prop party ''value'') (\<lambda>v.
     bindE (ToString v) (\<lambda>msisdn.
       Inr [(''Authorization'', ''Bearer '' @ token),
            (''Version'', ''1.0''),
            (''X-CorrelationID'', crypto_randomUUID P),
            (''UserLanguage'', ''mg''),
            (''UserAccountIdentifier'', ''msisdn;'' @ msisdn),
            (''partnerName'', ''Test Partner''),
            (''Content-Type'', ''application/json''),
            (''X-Callback-URL'', []),
            (''Cache-Control'', ''no-cache'')])))))"

definition merchant_pay_request :: "platform \<Rightarrow> (string \<times> string) list \<Rightarrow> jsval \<Rightarrow> fetch_request" where
  "merchant_pay_request P hs paymentData =
     \<lparr>req_url = merchant_pay_url P,
      req_method = ''POST'',
      req_headers = hs,
      req_body = JSON_stringify paymentData\<rparr>"

text \<open>The \<open>catch\<close> block: \<open>{ status: 500, data: { error: error.message } }\<close>.\<close>

definition payment_error :: "exn \<Rightarrow> payment_result" where
  "payment_error e = \<lparr>result_status = 500, result_data = Obj [(''error'', Str (message e))]\<rparr>"

definition initiateMvolaPayment ::
  "platform \<Rightarrow> jsval \<Rightarrow> jsval \<Rightarrow> payment_result \<times> fetch_request list" where
  "initiateMvolaPayment P paymentData accessToken =
     (case payment_headers P paymentData accessToken of
        Inl e \<Rightarrow> (payment_error e, [])
      | Inr hs \<Rightarrow>
          (case global_fetch P (merchant_pay_request P hs paymentData) of
             Rejected e \<Rightarrow> (payment_error e, [merchant_pay_request P hs paymentData])
           | Resolved response \<Rightarrow>
               (case fr_json response of
                  Inl e \<Rightarrow> (payment_error e, [merchant_pay_request P hs paymentData])
                | Inr result \<Rightarrow>
                    (\<lparr>result_status = fr_status response, result_data = result\<rparr>,
                     [merchant_pay_request P hs paymentData]))))"

subsection \<open>The handler\<close>

definition corsHeaders :: "(string \<times> string) list" where
  "corsHeaders =
     [(''Access-Control-Allow-Origin'', ''*''),
      (''Access-Control-Allow-Methods'', ''GET, POST, OPTIONS''),
      (''Access-Control-Allow-Headers'', ''Content-Type, Authorization'')]"

text \<open>The two pictographs of the source's literals, in UTF-8.\<close>

definition rocket :: string where
  "rocket = [CHR 0xF0, CHR 0x9F, CHR 0x9A, CHR 0x80]"

definition check_mark :: string where
  "check_mark = [CHR 0xE2, CHR 0x9C, CHR 0x85]"

definition banner :: string where
  "banner = rocket @ '' MVola API Wrapper is running!'' @ [CHR 0x0A, CHR 0x0A]
     @ ''Endpoints:'' @ [CHR 0x0A]
     @ ''- GET /test'' @ [CHR 0x0A]
     @ ''- POST /auth'' @ [CHR 0x0A]
     @ ''- POST /payment'' @ [CHR 0x0A]
     @ ''- GET /status'' @ [CHR 0x0A]
     @ ''- POST /webhook''"

definition json_headers :: "(string \<times> string) list" where
  "json_headers = corsHeaders @ [(''Content-Type'', ''application/json'')]"

definition test_payload :: "platform \<Rightarrow> jsval" where
  "test_payload P =
     Obj [(''message'', Str (check_mark @ '' API is working!'')),
          (''timestamp'', Str (Date_toISOString P)),
          (''config'',
             Obj [(''baseUrl'', Str (BASE_URL (MVOLA_CONFIG P))),
                  (''hasCredentials'',
                     Bool (truthy (js_and (Str (CONSUMER_KEY (MVOLA_CONFIG P)))
                                          (Str (CONSUMER_SECRET (MVOLA_CONFIG P))))))])]"

definition auth_failed :: "exn + response" where
  "auth_failed =
     new_Response (JSON_stringify (Obj [(''error'', Str ''Authentication failed'')])) 401 json_headers"

definition method_not_allowed :: "exn + response" where
  "method_not_allowed = new_Response (Text ''Method not allowed'') 405 corsHeaders"

text \<open>The three assignments of the \<open>/payment\<close> case.\<close>

definition force_empty :: "jsval \<Rightarrow> exn + jsval" where
  "force_empty paymentRequest =
     bindE (set_prop paymentRequest ''requestDate'' (Str [])) (\<lambda>p1.
     bindE (set_prop p1 ''requestingOrganisationTransactionReference'' (Str [])) (\<lambda>p2.
     set_prop p2 ''originalTransactionReference'' (Str [])))"

definition payment_result_object :: "payment_result \<Rightarrow> jsval" where
  "payment_result_object r =
     Obj [(''status'', Num (decimal (result_status r))), (''data'', result_data r)]"

definition auth_case :: "platform \<Rightarrow> request \<Rightarrow> (exn + response) \<times> fetch_request list" where
  "auth_case P request =
     (if request_method request \<noteq> ''POST'' then (method_not_allowed, [])
      else
        (case authenticateMvola P of
           (authResult, calls) \<Rightarrow>
             if \<not> truthy authResult then (auth_failed, calls)
             else
               (bindE (get_prop authResult ''access_token'') (\<lambda>token.
                bindE (get_prop authResult ''expires_in'') (\<lambda>expires_in.
                  new_Response
                    (JSON_stringify
                       (Obj [(''success'', Bool True), (''token'', token), (''expires_in'', expires_in)]))
                    200 json_headers)),
                calls)))"

definition payment_case :: "platform \<Rightarrow> request \<Rightarrow> (exn + response) \<times> fetch_request list" where
  "payment_case P request =
     (if request_method request \<noteq> ''POST'' then (method_not_allowed, [])
      else
        (case authenticateMvola P of
           (auth, calls) \<Rightarrow>
             if \<not> truthy auth then (auth_failed, calls)
             else
               (case bindE (json request) force_empty of
                  Inl e \<Rightarrow> (Inl e, calls)
                | Inr paymentRequest \<Rightarrow>
                    (case get_prop auth ''access_token'' of
                       Inl e \<Rightarrow> (Inl e, calls)
                     | Inr token \<Rightarrow>
                         (case initiateMvolaPayment P paymentRequest token of
                            (paymentResult, calls') \<Rightarrow>
                              (new_Response
                                 (JSON_stringify (payment_result_object paymentResult))
                                 (result_status paymentResult) json_headers,
                               calls @ calls'))))))"

definition webhook_case :: "platform \<Rightarrow> request \<Rightarrow> (exn + response) \<times> fetch_request list" where
  "webhook_case P request =
     (if request_method request \<noteq> ''POST'' then (method_not_allowed, [])
      else
        (bindE (json request) (\<lambda>webhookData.
           new_Response (JSON_stringify (Obj [(''received'', Bool True)])) 200 json_headers),
         []))"

text \<open>The \<open>switch\<close> on the path, that is the body of the handler's \<open>try\<close> block.\<close>

definition route :: "platform \<Rightarrow> request \<Rightarrow> (exn + response) \<times> fetch_request list" where
  "route P request =
     (if pathname (url request) = ''/'' then
        (new_Response (Text banner) 200 (corsHeaders @ [(''Content-Type'', ''text/plain'')]), [])
      else if pathname (url request) = ''/test'' then
        (new_Response (JSON_stringify (test_payload P)) 200 json_headers, [])
      else if pathname (url request) = ''/auth'' then auth_case P request
      else if pathname (url request) = ''/payment'' then payment_case P request
      else if pathname (url request) = ''/webhook'' then webhook_case P request
      else (new_Response (Text ''Not Found'') 404 corsHeaders, []))"

text \<open>The \<open>catch\<close> block of the handler.\<close>

definition internal_server_error :: "exn \<Rightarrow> exn + response" where
  "internal_server_error e =
     new_Response
       (JSON_stringify (Obj [(''error'', Str ''Internal server error''), (''message'', Str (message e))]))
       500 json_headers"

definition fetch :: "platform \<Rightarrow> request \<Rightarrow> (exn + response) \<times> fetch_request list" where
  "fetch P request =
     (if request_method request = ''OPTIONS'' then (new_Response NoBody 200 corsHeaders, [])
      else
        (case route P request of
           (Inl e, calls) \<Rightarrow> (internal_server_error e, calls)
         | (Inr r, calls) \<Rightarrow> (Inr r, calls)))"

subsection \<open>Predicates of the properties\<close>

definition has_cors :: "(string \<times> string) list \<Rightarrow> bool" where
  "has_cors hs =
     (map_of hs ''Access-Control-Allow-Origin'' = Some ''*'' \<and>
      map_of hs ''Access-Control-Allow-Methods'' = Some ''GET, POST, OPTIONS'' \<and>
      map_of hs ''Access-Control-Allow-Headers'' = Some ''Content-Type, Authorization'')"

text \<open>The token call failed: it was rejected (a transport error), or its status is not a
  success, or its body is not JSON.\<close>

definition token_call_failed :: "fetch_outcome \<Rightarrow> bool" where
  "token_call_failed outcome =
     (case outcome of
        Rejected e \<Rightarrow> True
      | Resolved r \<Rightarrow> \<not> ok r \<or> isl (fr_json r))"

text \<open>A body is a JSON object whose three correlation fields are the empty string.\<close>

definition empty_correlation_fields :: "body \<Rightarrow> bool" where
  "empty_correlation_fields b =
     (case b of
        JsonText (Obj kvs) \<Rightarrow>
          map_of kvs ''requestDate'' = Some (Str []) \<and>
          map_of kvs ''requestingOrganisationTransactionReference'' = Some (Str []) \<and>
          map_of kvs ''originalTransactionReference'' = Some (Str [])
      | _ \<Rightarrow> False)"

subsection \<open>Concrete runs\<close>

text \<open>A platform with the credentials \<open>key\<close> and \<open>secret\<close> (whose \<open>btoa\<close> gives the
  base64 text of \<open>key:secret\<close>, the only string it is asked for), whose token endpoint
  grants the token \<open>abc123\<close> and whose merchant-pay endpoint accepts the payment.\<close>

definition demo_platform :: platform where
  "demo_platform =
     \<lparr>Deno_env_get =
        (\<lambda>k. if k = ''MVOLA_CONSUMER_KEY'' then Some ''key''
             else if k = ''MVOLA_CONSUMER_SECRET'' then Some ''secret'' else None),
      btoa = (\<lambda>s. Inr ''a2V5OnNlY3JldA==''),
      global_fetch =
        (\<lambda>rq. if req_url rq = ''https://devapi.mvola.mg/token'' then
                Resolved
                  \<lparr>fr_status = 200,
                   fr_json =
                     Inr (Obj [(''access_token'', Str ''abc123''),
                               (''scope'', Str ''EXT_INT_MVOLA_SCOPE''),
                               (''token_type'', Str ''Bearer''),
                               (''expires_in'', Num ''3600'')])\<rparr>
              else
                Resolved
                  \<lparr>fr_status = 200,
                   fr_json = Inr (Obj [(''transactionReference'', Str ''TX1'')])\<rparr>),
      crypto_randomUUID = ''123e4567-e89b-42d3-a456-426614174000'',
      Date_toISOString = ''2024-01-01T00:00:00.000Z''\<rparr>"

text \<open>The same platform, with a provider that answers every call with one outcome.\<close>

definition failing_platform :: "fetch_outcome \<Rightarrow> platform" where
  "failing_platform outcome = demo_platform\<lparr>global_fetch := (\<lambda>rq. outcome)\<rparr>"

definition demo_request :: "string \<Rightarrow> string \<Rightarrow> exn + jsval \<Rightarrow> request" where
  "demo_request m p b =
     \<lparr>request_method = m,
      url = \<lparr>origin = ''https://wrapper.example'', pathname = p, search = []\<rparr>,
      json = b\<rparr>"

text \<open>What \<open>request.json()\<close> raises on an empty body.\<close>

definition no_json :: "exn + jsval" where
  "no_json = Inl (Exn ''Unexpected end of JSON input'')"

definition demo_payment :: jsval where
  "demo_payment =
     Obj [(''amount'', Str ''1000''), (''currency'', Str ''Ar''), (''descriptionText'', Str ''test''),
          (''debitParty'', Arr [Obj [(''key'', Str ''msisdn''), (''value'', Str ''0340000000'')]]),
          (''creditParty'', Arr [Obj [(''key'', Str ''msisdn''), (''value'', Str ''0350000000'')]]),
          (''metadata'', Arr []),
          (''requestDate'', Str ''2024-01-01T00:00:00.000Z''),
          (''requestingOrganisationTransactionReference'', Str ''ref-1''),
          (''originalTransactionReference'', Str ''ref-0'')]"

definition no_debit_party :: "(string \<times> jsval) list" where
  "no_debit_party =
     [(''amount'', Str ''1000''), (''currency'', Str ''Ar''), (''descriptionText'', Str ''test''),
      (''debitParty'', Arr []),
      (''creditParty'', Arr [Obj [(''key'', Str ''msisdn''), (''value'', Str ''0350000000'')]]),
      (''metadata'', Arr [])]"

definition demo_headers :: "(string \<times> string) list" where
  "demo_headers =
     [(''Authorization'', ''Bearer abc123''),
      (''Version'', ''1.0''),
      (''X-CorrelationID'', ''123e4567-e89b-42d3-a456-426614174000''),
      (''UserLanguage'', ''mg''),
      (''UserAccountIdentifier'', ''msisdn;0340000000''),
      (''partnerName'', ''Test Partner''),
      (''Content-Type'', ''application/json''),
      (''X-Callback-URL'', []),
      (''Cache-Control'', ''no-cache'')]"

section \<open>Properties\<close>

subsection \<open>Responses\<close>

lemma new_Response_Inr:
  "200 \<le> st \<Longrightarrow> st \<le> 599 \<Longrightarrow> st \<notin> {204, 205, 304} \<Longrightarrow>
   new_Response b st hs = Inr \<lparr>status = st, headers = hs, body = b\<rparr>"
  by (auto simp: new_Response_def)

lemma new_Response_fields:
  "new_Response b st hs = Inr r \<Longrightarrow> status r = st \<and> headers r = hs \<and> body r = b"
  by (auto simp: new_Response_def split: if_splits)

lemma auth_failed_eq:
  "auth_failed =
     Inr \<lparr>status = 401, headers = json_headers,
          body = JsonText (Obj [(''error'', Str ''Authentication failed'')])\<rparr>"
  by (simp add: auth_failed_def new_Response_Inr JSON_stringify_def)

lemma method_not_allowed_eq:
  "method_not_allowed =
     Inr \<lparr>status = 405, headers = corsHeaders, body = Text ''Method not allowed''\<rparr>"
  by (simp add: method_not_allowed_def new_Response_Inr)

lemma internal_server_error_eq:
  "internal_server_error e =
     Inr \<lparr>status = 500, headers = json_headers,
          body = JsonText (Obj [(''error'', Str ''Internal server error''),
                                (''message'', Str (message e))])\<rparr>"
  by (simp add: internal_server_error_def new_Response_Inr JSON_stringify_def)

lemma decimal_500: "decimal 500 = ''500''"
  by code_simp

lemma get_prop_truthy: "truthy v \<Longrightarrow> \<exists>x. get_prop v k = Inr x"
  by (cases v) auto

subsection \<open>The CORS headers\<close>

lemma has_cors_corsHeaders: "has_cors corsHeaders"
  by (simp add: has_cors_def corsHeaders_def)

lemma has_cors_append: "has_cors (corsHeaders @ hs)"
  by (simp add: has_cors_def corsHeaders_def)

lemma has_cors_json: "has_cors json_headers"
  by (simp add: json_headers_def has_cors_append)

lemma auth_case_cors: "fst (auth_case P rq) = Inr r \<Longrightarrow> has_cors (headers r)"
  by (auto simp: auth_case_def method_not_allowed_eq auth_failed_eq bindE_def
        has_cors_corsHeaders has_cors_json
      dest!: new_Response_fields split: if_splits prod.splits sum.splits)

lemma payment_case_cors: "fst (payment_case P rq) = Inr r \<Longrightarrow> has_cors (headers r)"
  by (auto simp: payment_case_def method_not_allowed_eq auth_failed_eq
        has_cors_corsHeaders has_cors_json
      dest!: new_Response_fields split: if_splits prod.splits sum.splits)

lemma webhook_case_cors: "fst (webhook_case P rq) = Inr r \<Longrightarrow> has_cors (headers r)"
  by (auto simp: webhook_case_def method_not_allowed_eq bindE_def
        has_cors_corsHeaders has_cors_json
      dest!: new_Response_fields split: if_splits prod.splits sum.splits)

lemma route_cors: "fst (route P rq) = Inr r \<Longrightarrow> has_cors (headers r)"
  by (auto simp: route_def has_cors_corsHeaders has_cors_json has_cors_append
      dest: auth_case_cors payment_case_cors webhook_case_cors
      dest!: new_Response_fields split: if_splits)

text \<open>
  C7. The handler always answers with a response, never with an exception, and whatever the
  path, the method and the outcome (the 401, 404, 405 and 500 responses too), the response
  has the header \<open>Access-Control-Allow-Origin: *\<close>, the header
  \<open>Access-Control-Allow-Methods: GET, POST, OPTIONS\<close> and the header
  \<open>Access-Control-Allow-Headers: Content-Type, Authorization\<close>.
\<close>

theorem cors_headers_on_every_response:
  "\<exists>r. fst (fetch P request) = Inr r \<and>
       map_of (headers r) ''Access-Control-Allow-Origin'' = Some ''*'' \<and>
       map_of (headers r) ''Access-Control-Allow-Methods'' = Some ''GET, POST, OPTIONS'' \<and>
       map_of (headers r) ''Access-Control-Allow-Headers'' = Some ''Content-Type, Authorization''"
proof -
  have "\<exists>r. fst (fetch P request) = Inr r \<and> has_cors (headers r)"
  proof (cases "request_method request = ''OPTIONS''")
    case True
    then show ?thesis
      by (simp add: fetch_def new_Response_Inr has_cors_corsHeaders)
  next
    case False
    show ?thesis
    proof (cases "fst (route P request)")
      case (Inl e)
      with False show ?thesis
        by (cases "route P request") (simp add: fetch_def internal_server_error_eq has_cors_json)
    next
      case (Inr r)
      with False route_cors [of P request r] show ?thesis
        by (cases "route P request") (simp add: fetch_def)
    qed
  qed
  then show ?thesis
    by (simp add: has_cors_def)
qed

subsection \<open>Routing\<close>

text \<open>
  C10. Two requests that differ in the query string only get the same answer, and the handler
  makes the same outbound calls for them: the query string takes no part in the routing nor
  in any response.
\<close>

theorem query_string_is_ignored:
  "fetch P (request\<lparr>url := (url request)\<lparr>search := q\<rparr>\<rparr>) = fetch P request"
  by (simp add: fetch_def route_def auth_case_def payment_case_def webhook_case_def
      split: prod.split)

text \<open>
  C6, as amended. A request to \<open>/auth\<close>, \<open>/payment\<close> or \<open>/webhook\<close> whose method is
  neither POST nor OPTIONS is answered with status 405 and the text
  \<open>Method not allowed\<close>, and no outbound call is made.
\<close>

theorem non_post_is_405:
  assumes "request_method request \<noteq> ''POST''" and "request_method request \<noteq> ''OPTIONS''"
    and "pathname (url request) \<in> {''/auth'', ''/payment'', ''/webhook''}"
  shows "fetch P request =
           (Inr \<lparr>status = 405, headers = corsHeaders, body = Text ''Method not allowed''\<rparr>, [])"
  using assms
  by (auto simp: fetch_def route_def auth_case_def payment_case_def webhook_case_def
        method_not_allowed_eq)

text \<open>The amended C6 at \<open>GET /payment\<close>.\<close>

theorem non_post_is_405_witness:
  "fetch demo_platform (demo_request ''GET'' ''/payment'' no_json) =
     (Inr \<lparr>status = 405, headers = corsHeaders, body = Text ''Method not allowed''\<rparr>, [])"
  using non_post_is_405 [of "demo_request ''GET'' ''/payment'' no_json" demo_platform]
  by (simp add: demo_request_def)

text \<open>
  C6 as it is stated fails at \<open>OPTIONS /auth\<close>: the method is not POST, and the preflight
  answer has status 200, not 405.
\<close>

theorem options_is_not_405:
  "request_method (demo_request ''OPTIONS'' ''/auth'' no_json) \<noteq> ''POST'' \<and>
   pathname (url (demo_request ''OPTIONS'' ''/auth'' no_json)) = ''/auth'' \<and>
   fetch demo_platform (demo_request ''OPTIONS'' ''/auth'' no_json) =
     (Inr \<lparr>status = 200, headers = corsHeaders, body = NoBody\<rparr>, [])"
  by (simp add: demo_request_def fetch_def new_Response_Inr)

text \<open>
  C9. A request to \<open>/status\<close>, of any method other than OPTIONS, takes the default case:
  status 404 with the text \<open>Not Found\<close>; and yet the banner that \<open>GET /\<close> returns lists
  \<open>- GET /status\<close> among the endpoints.
\<close>

theorem status_route_is_missing:
  assumes "request_method request \<noteq> ''OPTIONS''" and "pathname (url request) = ''/status''"
  shows "fetch P request =
           (Inr \<lparr>status = 404, headers = corsHeaders, body = Text ''Not Found''\<rparr>, []) \<and>
         (\<exists>pre post.
            fetch P (request\<lparr>request_method := ''GET'', url := (url request)\<lparr>pathname := ''/''\<rparr>\<rparr>) =
              (Inr \<lparr>status = 200, headers = corsHeaders @ [(''Content-Type'', ''text/plain'')],
                    body = Text (pre @ ''- GET /status'' @ post)\<rparr>, []))"
proof
  show "fetch P request =
          (Inr \<lparr>status = 404, headers = corsHeaders, body = Text ''Not Found''\<rparr>, [])"
    using assms by (simp add: fetch_def route_def new_Response_Inr)
next
  have page: "fetch P (request\<lparr>request_method := ''GET'', url := (url request)\<lparr>pathname := ''/''\<rparr>\<rparr>) =
      (Inr \<lparr>status = 200, headers = corsHeaders @ [(''Content-Type'', ''text/plain'')],
            body = Text banner\<rparr>, [])"
    by (simp add: fetch_def route_def new_Response_Inr)
  have "banner =
      (rocket @ '' MVola API Wrapper is running!'' @ [CHR 0x0A, CHR 0x0A]
         @ ''Endpoints:'' @ [CHR 0x0A]
         @ ''- GET /test'' @ [CHR 0x0A]
         @ ''- POST /auth'' @ [CHR 0x0A]
         @ ''- POST /payment'' @ [CHR 0x0A])
      @ ''- GET /status'' @ ([CHR 0x0A] @ ''- POST /webhook'')"
    by (simp add: banner_def)
  then have "\<exists>pre post. banner = pre @ ''- GET /status'' @ post"
    by blast
  with page show "\<exists>pre post.
      fetch P (request\<lparr>request_method := ''GET'', url := (url request)\<lparr>pathname := ''/''\<rparr>\<rparr>) =
        (Inr \<lparr>status = 200, headers = corsHeaders @ [(''Content-Type'', ''text/plain'')],
              body = Text (pre @ ''- GET /status'' @ post)\<rparr>, [])"
    by auto
qed

text \<open>C9 at \<open>GET /status\<close>.\<close>

theorem status_route_is_missing_witness:
  "fetch demo_platform (demo_request ''GET'' ''/status'' no_json) =
     (Inr \<lparr>status = 404, headers = corsHeaders, body = Text ''Not Found''\<rparr>, [])"
  using status_route_is_missing [of "demo_request ''GET'' ''/status'' no_json" demo_platform]
  by (simp add: demo_request_def)

text \<open>
  C8. A request to \<open>/test\<close>, of any method other than OPTIONS, is answered with status 200
  and a JSON body whose \<open>config.hasCredentials\<close> is true exactly when the consumer key
  and the consumer secret are both non-empty strings.
\<close>

theorem test_reports_credentials:
  assumes "request_method request \<noteq> ''OPTIONS''" and "pathname (url request) = ''/test''"
  shows "\<exists>r v. fetch P request = (Inr r, []) \<and> status r = 200 \<and> body r = JsonText v \<and>
           bindE (get_prop v ''config'') (\<lambda>c. get_prop c ''hasCredentials'') =
             Inr (Bool (CONSUMER_KEY (MVOLA_CONFIG P) \<noteq> [] \<and>
                        CONSUMER_SECRET (MVOLA_CONFIG P) \<noteq> []))"
  using assms
  by (simp add: fetch_def route_def new_Response_Inr JSON_stringify_def test_payload_def
      bindE_def js_and_def)

text \<open>C8 at \<open>GET /test\<close>, with both credentials set.\<close>

theorem test_reports_credentials_witness:
  "\<exists>r v. fetch demo_platform (demo_request ''GET'' ''/test'' no_json) = (Inr r, []) \<and>
         status r = 200 \<and> body r = JsonText v \<and>
         bindE (get_prop v ''config'') (\<lambda>c. get_prop c ''hasCredentials'') = Inr (Bool True)"
  using test_reports_credentials [of "demo_request ''GET'' ''/test'' no_json" demo_platform]
  by (simp add: demo_request_def demo_platform_def MVOLA_CONFIG_def env_or_empty_def js_or_def)

text \<open>
  C5, as amended. A POST to \<open>/webhook\<close> whose body is valid JSON, of any shape, is
  answered with status 200 and the body \<open>{received: true}\<close>; nothing else is done with it.
\<close>

theorem webhook_acknowledged:
  assumes "request_method request = ''POST''" and "pathname (url request) = ''/webhook''"
    and "json request = Inr webhookData"
  shows "fetch P request =
           (Inr \<lparr>status = 200, headers = json_headers,
                 body = JsonText (Obj [(''received'', Bool True)])\<rparr>, [])"
  using assms
  by (simp add: fetch_def route_def webhook_case_def bindE_def new_Response_Inr JSON_stringify_def)

text \<open>The amended C5 at the body \<open>{foo: "bar"}\<close>.\<close>

theorem webhook_acknowledged_witness:
  "fetch demo_platform (demo_request ''POST'' ''/webhook'' (Inr (Obj [(''foo'', Str ''bar'')]))) =
     (Inr \<lparr>status = 200, headers = json_headers,
           body = JsonText (Obj [(''received'', Bool True)])\<rparr>, [])"
  using webhook_acknowledged [of "demo_request ''POST'' ''/webhook'' (Inr (Obj [(''foo'', Str ''bar'')]))"
      "Obj [(''foo'', Str ''bar'')]" demo_platform]
  by (simp add: demo_request_def)

text \<open>
  C5 as it is stated fails at a POST to \<open>/webhook\<close> with an empty body: \<open>request.json()\<close>
  raises, the handler's \<open>catch\<close> answers with status 500.
\<close>

theorem webhook_without_json_is_500:
  "request_method (demo_request ''POST'' ''/webhook'' no_json) = ''POST'' \<and>
   pathname (url (demo_request ''POST'' ''/webhook'' no_json)) = ''/webhook'' \<and>
   fetch demo_platform (demo_request ''POST'' ''/webhook'' no_json) =
     (Inr \<lparr>status = 500, headers = json_headers,
           body = JsonText (Obj [(''error'', Str ''Internal server error''),
                                 (''message'', Str ''Unexpected end of JSON input'')])\<rparr>, [])"
  by (simp add: demo_request_def no_json_def fetch_def route_def webhook_case_def bindE_def
      internal_server_error_eq)

subsection \<open>Authentication\<close>

lemma urls_differ: "token_url P \<noteq> merchant_pay_url P"
  by (simp add: token_url_def merchant_pay_url_def MVOLA_CONFIG_def)

lemma authenticateMvola_calls:
  "call \<in> set (snd (authenticateMvola P)) \<Longrightarrow> req_url call = token_url P"
  by (auto simp: authenticateMvola_def token_request_def
      split: sum.splits fetch_outcome.splits if_splits)

lemma authenticateMvola_failed:
  assumes "btoa P (CONSUMER_KEY (MVOLA_CONFIG P) @ '':'' @ CONSUMER_SECRET (MVOLA_CONFIG P)) =
      Inr credentials"
    and "token_call_failed (global_fetch P (token_request P credentials))"
  shows "authenticateMvola P = (Null, [token_request P credentials])"
  using assms
  by (auto simp: authenticateMvola_def token_call_failed_def isl_def
      split: fetch_outcome.splits sum.splits)

text \<open>
  C2. When the call to the token endpoint fails (a status that is not a success, a transport
  error, or a body that is not JSON), \<open>authenticateMvola\<close> returns \<open>null\<close>; a POST to
  \<open>/auth\<close> or to \<open>/payment\<close> is then answered with status 401 and the body
  \<open>{error: "Authentication failed"}\<close>, and no call of that request goes to the
  merchant-pay endpoint.
\<close>

theorem failed_authentication_is_401:
  assumes "btoa P (CONSUMER_KEY (MVOLA_CONFIG P) @ '':'' @ CONSUMER_SECRET (MVOLA_CONFIG P)) =
      Inr credentials"
    and "token_call_failed (global_fetch P (token_request P credentials))"
    and "request_method request = ''POST''"
    and "pathname (url request) = ''/auth'' \<or> pathname (url request) = ''/payment''"
  shows "fst (authenticateMvola P) = Null \<and>
         fst (fetch P request) =
           Inr \<lparr>status = 401, headers = json_headers,
                body = JsonText (Obj [(''error'', Str ''Authentication failed'')])\<rparr> \<and>
         (\<forall>call \<in> set (snd (fetch P request)). req_url call \<noteq> merchant_pay_url P)"
proof -
  have a: "authenticateMvola P = (Null, [token_request P credentials])"
    using assms(1,2) by (rule authenticateMvola_failed)
  have u: "req_url (token_request P credentials) \<noteq> merchant_pay_url P"
    using urls_differ [of P] by (simp add: token_request_def)
  from assms(4) show ?thesis
  proof
    assume "pathname (url request) = ''/auth''"
    with assms(3) a u show ?thesis
      by (simp add: fetch_def route_def auth_case_def auth_failed_eq)
  next
    assume "pathname (url request) = ''/payment''"
    with assms(3) a u show ?thesis
      by (simp add: fetch_def route_def payment_case_def auth_failed_eq)
  qed
qed

text \<open>
  C2 at three runs, one for each way the token call fails: the status 401, a rejected call,
  and a status 200 with a body that is not JSON. The first is a POST to \<open>/payment\<close>, the
  others a POST to \<open>/auth\<close>; the only outbound call is the one to the token endpoint.
\<close>

theorem failed_authentication_is_401_witness:
  "fetch (failing_platform (Resolved \<lparr>fr_status = 401, fr_json = Inr (Obj [(''error'', Str ''invalid_client'')])\<rparr>))
      (demo_request ''POST'' ''/payment'' (Inr demo_payment)) =
     (Inr \<lparr>status = 401, headers = json_headers,
           body = JsonText (Obj [(''error'', Str ''Authentication failed'')])\<rparr>,
      [token_request demo_platform ''a2V5OnNlY3JldA=='']) \<and>
   fst (fetch (failing_platform (Rejected (Exn ''error sending request'')))
      (demo_request ''POST'' ''/auth'' no_json)) =
     Inr \<lparr>status = 401, headers = json_headers,
          body = JsonText (Obj [(''error'', Str ''Authentication failed'')])\<rparr> \<and>
   fst (fetch (failing_platform (Resolved \<lparr>fr_status = 200, fr_json = no_json\<rparr>))
      (demo_request ''POST'' ''/auth'' no_json)) =
     Inr \<lparr>status = 401, headers = json_headers,
          body = JsonText (Obj [(''error'', Str ''Authentication failed'')])\<rparr>"
proof -
  let ?unauthorized =
    "Resolved \<lparr>fr_status = 401, fr_json = Inr (Obj [(''error'', Str ''invalid_client'')])\<rparr>"
  let ?rejected = "Rejected (Exn ''error sending request'')"
  let ?garbled = "Resolved \<lparr>fr_status = 200, fr_json = no_json\<rparr>"
  have b: "btoa (failing_platform out)
      (CONSUMER_KEY (MVOLA_CONFIG (failing_platform out)) @ '':'' @
       CONSUMER_SECRET (MVOLA_CONFIG (failing_platform out))) = Inr ''a2V5OnNlY3JldA==''" for out
    by (simp add: failing_platform_def demo_platform_def)
  have g: "global_fetch (failing_platform out) rq = out" for out rq
    by (simp add: failing_platform_def)
  have t: "token_request (failing_platform out) c = token_request demo_platform c" for out c
    by (simp add: token_request_def token_url_def MVOLA_CONFIG_def env_or_empty_def
        failing_platform_def)
  have 1: "token_call_failed (global_fetch (failing_platform ?unauthorized)
      (token_request (failing_platform ?unauthorized) ''a2V5OnNlY3JldA==''))"
    by (simp add: g token_call_failed_def ok_def)
  have 2: "token_call_failed (global_fetch (failing_platform ?rejected)
      (token_request (failing_platform ?rejected) ''a2V5OnNlY3JldA==''))"
    by (simp add: g token_call_failed_def)
  have 3: "token_call_failed (global_fetch (failing_platform ?garbled)
      (token_request (failing_platform ?garbled) ''a2V5OnNlY3JldA==''))"
    by (simp add: g token_call_failed_def ok_def no_json_def)
  have calls: "snd (fetch (failing_platform ?unauthorized)
      (demo_request ''POST'' ''/payment'' (Inr demo_payment))) =
      [token_request demo_platform ''a2V5OnNlY3JldA=='']"
    using authenticateMvola_failed [OF b 1]
    by (simp add: fetch_def route_def payment_case_def demo_request_def auth_failed_eq t)
  show ?thesis
    using failed_authentication_is_401 [OF b 1, of "demo_request ''POST'' ''/payment'' (Inr demo_payment)"]
      failed_authentication_is_401 [OF b 2, of "demo_request ''POST'' ''/auth'' no_json"]
      failed_authentication_is_401 [OF b 3, of "demo_request ''POST'' ''/auth'' no_json"]
      calls
    by (simp add: demo_request_def prod_eq_iff)
qed

subsection \<open>The payment\<close>

text \<open>
  C3, as amended. \<open>initiateMvolaPayment\<close> returns the status of the provider's response,
  as it is, with the parsed JSON body of that response as \<open>data\<close>, when the headers can be
  built and the provider answers with a JSON body. It returns status 500 with
  \<open>{error: message}\<close> as \<open>data\<close>, the message being the exception's, in three cases: the
  call is rejected (a transport error), the body of the response is not JSON, or building the
  headers raises (an empty \<open>debitParty\<close> list, for one), in which case the provider is not
  called at all. One of these four cases always holds, so there is no other outcome.
\<close>

theorem initiateMvolaPayment_outcomes:
  "(payment_headers P paymentData accessToken = Inr hs \<and>
      global_fetch P (merchant_pay_request P hs paymentData) = Resolved r \<and>
      fr_json r = Inr d \<longrightarrow>
    initiateMvolaPayment P paymentData accessToken =
      (\<lparr>result_status = fr_status r, result_data = d\<rparr>,
       [merchant_pay_request P hs paymentData])) \<and>
   (payment_headers P paymentData accessToken = Inr hs \<and>
      global_fetch P (merchant_pay_request P hs paymentData) = Rejected e \<longrightarrow>
    initiateMvolaPayment P paymentData accessToken =
      (\<lparr>result_status = 500, result_data = Obj [(''error'', Str (message e))]\<rparr>,
       [merchant_pay_request P hs paymentData])) \<and>
   (payment_headers P paymentData accessToken = Inr hs \<and>
      global_fetch P (merchant_pay_request P hs paymentData) = Resolved r \<and>
      fr_json r = Inl e \<longrightarrow>
    initiateMvolaPayment P paymentData accessToken =
      (\<lparr>result_status = 500, result_data = Obj [(''error'', Str (message e))]\<rparr>,
       [merchant_pay_request P hs paymentData])) \<and>
   (payment_headers P paymentData accessToken = Inl e \<longrightarrow>
    initiateMvolaPayment P paymentData accessToken =
      (\<lparr>result_status = 500, result_data = Obj [(''error'', Str (message e))]\<rparr>, [])) \<and>
   ((\<exists>hs' r' d'. payment_headers P paymentData accessToken = Inr hs' \<and>
        global_fetch P (merchant_pay_request P hs' paymentData) = Resolved r' \<and>
        fr_json r' = Inr d') \<or>
    (\<exists>hs' e'. payment_headers P paymentData accessToken = Inr hs' \<and>
        global_fetch P (merchant_pay_request P hs' paymentData) = Rejected e') \<or>
    (\<exists>hs' r' e'. payment_headers P paymentData accessToken = Inr hs' \<and>
        global_fetch P (merchant_pay_request P hs' paymentData) = Resolved r' \<and>
        fr_json r' = Inl e') \<or>
    (\<exists>e'. payment_headers P paymentData accessToken = Inl e'))"
proof (intro conjI impI)
  show "(\<exists>hs' r' d'. payment_headers P paymentData accessToken = Inr hs' \<and>
        global_fetch P (merchant_pay_request P hs' paymentData) = Resolved r' \<and>
        fr_json r' = Inr d') \<or>
    (\<exists>hs' e'. payment_headers P paymentData accessToken = Inr hs' \<and>
        global_fetch P (merchant_pay_request P hs' paymentData) = Rejected e') \<or>
    (\<exists>hs' r' e'. payment_headers P paymentData accessToken = Inr hs' \<and>
        global_fetch P (merchant_pay_request P hs' paymentData) = Resolved r' \<and>
        fr_json r' = Inl e') \<or>
    (\<exists>e'. payment_headers P paymentData accessToken = Inl e')"
  proof (cases "payment_headers P paymentData accessToken")
    case (Inl e')
    then show ?thesis
      by simp
  next
    case (Inr hs')
    show ?thesis
    proof (cases "global_fetch P (merchant_pay_request P hs' paymentData)")
      case (Rejected e')
      with Inr show ?thesis
        by simp
    next
      case (Resolved r')
      with Inr show ?thesis
        by (cases "fr_json r'") auto
    qed
  qed
qed (simp_all add: initiateMvolaPayment_def payment_error_def)

text \<open>
  The amended C3 at four runs: a provider that answers 200 with a JSON body, a rejected call,
  a provider that answers 502 with a body that is not JSON, and a PaymentRequest with
  \<open>debitParty: []\<close>, for which no call is made.
\<close>

theorem initiateMvolaPayment_outcomes_witness:
  "initiateMvolaPayment demo_platform demo_payment (Str ''abc123'') =
     (\<lparr>result_status = 200, result_data = Obj [(''transactionReference'', Str ''TX1'')]\<rparr>,
      [merchant_pay_request demo_platform demo_headers demo_payment]) \<and>
   fst (initiateMvolaPayment (failing_platform (Rejected (Exn ''error sending request'')))
          demo_payment (Str ''abc123'')) =
     \<lparr>result_status = 500, result_data = Obj [(''error'', Str ''error sending request'')]\<rparr> \<and>
   fst (initiateMvolaPayment
          (failing_platform (Resolved \<lparr>fr_status = 502, fr_json = Inl (Exn ''Unexpected token <'')\<rparr>))
          demo_payment (Str ''abc123'')) =
     \<lparr>result_status = 500, result_data = Obj [(''error'', Str ''Unexpected token <'')]\<rparr> \<and>
   initiateMvolaPayment demo_platform (Obj no_debit_party) (Str ''abc123'') =
     (\<lparr>result_status = 500,
       result_data = Obj [(''error'', Str ''Cannot read properties of undefined (reading 'value')'')]\<rparr>,
      [])"
proof -
  let ?rejected = "failing_platform (Rejected (Exn ''error sending request''))"
  let ?garbled =
    "failing_platform (Resolved \<lparr>fr_status = 502, fr_json = Inl (Exn ''Unexpected token <'')\<rparr>)"
  have h: "payment_headers demo_platform demo_payment (Str ''abc123'') = Inr demo_headers"
    by (simp add: payment_headers_def bindE_def demo_payment_def demo_platform_def demo_headers_def)
  have h': "payment_headers (failing_platform out) demo_payment (Str ''abc123'') = Inr demo_headers"
    for out
    by (simp add: payment_headers_def bindE_def demo_payment_def demo_platform_def demo_headers_def
        failing_platform_def)
  have n: "payment_headers demo_platform (Obj no_debit_party) (Str ''abc123'') =
      Inl (Exn ''Cannot read properties of undefined (reading 'value')'')"
    by (simp add: payment_headers_def bindE_def no_debit_party_def)
  have f: "global_fetch demo_platform (merchant_pay_request demo_platform demo_headers demo_payment) =
      Resolved \<lparr>fr_status = 200, fr_json = Inr (Obj [(''transactionReference'', Str ''TX1'')])\<rparr>"
    by (simp add: demo_platform_def merchant_pay_request_def merchant_pay_url_def MVOLA_CONFIG_def)
  have g: "global_fetch (failing_platform out) rq = out" for out rq
    by (simp add: failing_platform_def)
  show ?thesis
    using initiateMvolaPayment_outcomes [of demo_platform demo_payment "Str ''abc123''" demo_headers
        "\<lparr>fr_status = 200, fr_json = Inr (Obj [(''transactionReference'', Str ''TX1'')])\<rparr>"
        "Obj [(''transactionReference'', Str ''TX1'')]"]
      initiateMvolaPayment_outcomes [of ?rejected demo_payment "Str ''abc123''" demo_headers _ _
        "Exn ''error sending request''"]
      initiateMvolaPayment_outcomes [of ?garbled demo_payment "Str ''abc123''" demo_headers
        "\<lparr>fr_status = 502, fr_json = Inl (Exn ''Unexpected token <'')\<rparr>" _ "Exn ''Unexpected token <''"]
      initiateMvolaPayment_outcomes [of demo_platform "Obj no_debit_party" "Str ''abc123''" _ _ _
        "Exn ''Cannot read properties of undefined (reading 'value')''"]
    by (simp add: h h' f g n)
qed

text \<open>
  C3 as it is stated fails at a PaymentRequest with \<open>debitParty: []\<close>, on a platform whose
  provider would answer 200 with a JSON body: the result is the status 500 with an error
  message, and yet no call was made, so that there was neither a transport error nor a
  response that is not JSON, and no status of the provider to pass through.
\<close>

theorem initiateMvolaPayment_third_cause:
  "get_prop (Obj no_debit_party) ''debitParty'' = Inr (Arr []) \<and>
   global_fetch demo_platform
       (merchant_pay_request demo_platform demo_headers (Obj no_debit_party)) =
     Resolved \<lparr>fr_status = 200, fr_json = Inr (Obj [(''transactionReference'', Str ''TX1'')])\<rparr> \<and>
   initiateMvolaPayment demo_platform (Obj no_debit_party) (Str ''abc123'') =
     (\<lparr>result_status = 500,
       result_data = Obj [(''error'', Str ''Cannot read properties of undefined (reading 'value')'')]\<rparr>,
      []) \<and>
   fst (initiateMvolaPayment demo_platform (Obj no_debit_party) (Str ''abc123'')) \<noteq>
     \<lparr>result_status = 200, result_data = Obj [(''transactionReference'', Str ''TX1'')]\<rparr>"
  by code_simp

lemma map_of_JSON_fields:
  "map_of kvs k = Some (Str s) \<Longrightarrow>
   map_of (map (\<lambda>kv. (fst kv, JSON_value (snd kv))) (filter (\<lambda>kv. snd kv \<noteq> Undefined) kvs)) k =
     Some (Str s)"
  by (induction kvs) (auto split: if_splits)

lemma JSON_stringify_fields:
  "map_of kvs ''requestDate'' = Some (Str []) \<Longrightarrow>
   map_of kvs ''requestingOrganisationTransactionReference'' = Some (Str []) \<Longrightarrow>
   map_of kvs ''originalTransactionReference'' = Some (Str []) \<Longrightarrow>
   empty_correlation_fields (JSON_stringify (Obj kvs))"
  by (simp add: empty_correlation_fields_def JSON_stringify_def map_of_JSON_fields)

lemma force_empty_Obj:
  "force_empty (Obj kvs) =
     Inr (Obj (AList.update ''originalTransactionReference'' (Str [])
            (AList.update ''requestingOrganisationTransactionReference'' (Str [])
              (AList.update ''requestDate'' (Str []) kvs))))"
  by (simp add: force_empty_def bindE_def)

lemma force_empty_cases:
  assumes "force_empty v = Inr p"
  shows "(\<exists>xs. p = Arr xs) \<or>
         (\<exists>kvs. p = Obj kvs \<and>
            map_of kvs ''requestDate'' = Some (Str []) \<and>
            map_of kvs ''requestingOrganisationTransactionReference'' = Some (Str []) \<and>
            map_of kvs ''originalTransactionReference'' = Some (Str []))"
  using assms
  by (cases v) (auto simp: force_empty_def bindE_def update_conv')

lemma payment_headers_Arr: "isl (payment_headers P (Arr xs) accessToken)"
  by (cases "ToString accessToken") (simp_all add: payment_headers_def bindE_def)

lemma payment_headers_no_debit_party:
  assumes "map_of kvs ''debitParty'' = Some (Arr [])"
  shows "\<exists>e. payment_headers P (Obj kvs) token = Inl e \<and>
           (\<forall>t. token = Str t \<longrightarrow>
              e = Exn ''Cannot read properties of undefined (reading 'value')'')"
  using assms
  by (cases "ToString token") (auto simp: payment_headers_def bindE_def)

lemma initiateMvolaPayment_calls:
  assumes "call \<in> set (snd (initiateMvolaPayment P paymentData accessToken))"
  shows "req_url call = merchant_pay_url P \<and> req_body call = JSON_stringify paymentData \<and>
         \<not> isl (payment_headers P paymentData accessToken)"
  using assms
  by (auto simp: initiateMvolaPayment_def merchant_pay_request_def
      split: sum.splits fetch_outcome.splits)

lemma payment_case_calls:
  assumes "call \<in> set (snd (payment_case P request))"
  shows "req_url call = token_url P \<or> empty_correlation_fields (req_body call)"
proof (cases "call \<in> set (snd (authenticateMvola P))")
  case True
  then show ?thesis
    by (simp add: authenticateMvola_calls)
next
  case False
  with assms have "\<exists>v p token. force_empty v = Inr p \<and>
      call \<in> set (snd (initiateMvolaPayment P p token))"
    by (auto simp: payment_case_def bindE_def case_prod_unfold split: if_splits sum.splits)
  then obtain v p token where p: "force_empty v = Inr p"
    and c: "call \<in> set (snd (initiateMvolaPayment P p token))"
    by blast
  from initiateMvolaPayment_calls [OF c]
  have b: "req_body call = JSON_stringify p" and h: "\<not> isl (payment_headers P p token)"
    by simp_all
  from force_empty_cases [OF p] h payment_headers_Arr [of P _ token]
  obtain kvs where "p = Obj kvs"
    and "map_of kvs ''requestDate'' = Some (Str [])"
    and "map_of kvs ''requestingOrganisationTransactionReference'' = Some (Str [])"
    and "map_of kvs ''originalTransactionReference'' = Some (Str [])"
    by auto
  with b show ?thesis
    by (simp add: JSON_stringify_fields)
qed

lemma auth_case_calls:
  "call \<in> set (snd (auth_case P request)) \<Longrightarrow> req_url call = token_url P"
  by (auto simp: auth_case_def authenticateMvola_calls split: if_splits prod.splits)

lemma route_calls:
  assumes "call \<in> set (snd (route P request))"
  shows "req_url call = token_url P \<or> empty_correlation_fields (req_body call)"
  using assms payment_case_calls [of call P request] auth_case_calls [of call P request]
  by (auto simp: route_def webhook_case_def split: if_splits)

lemma fetch_calls:
  "snd (fetch P request) =
     (if request_method request = ''OPTIONS'' then [] else snd (route P request))"
  by (cases "route P request") (auto simp: fetch_def split: sum.splits)

text \<open>
  C1. Whatever the inbound request, and so for every POST to \<open>/payment\<close> whose body is a
  PaymentRequest, with any values in its correlation fields: each call that the handler makes
  to the merchant-pay endpoint carries a JSON object in which \<open>requestDate\<close>,
  \<open>requestingOrganisationTransactionReference\<close> and \<open>originalTransactionReference\<close> are
  the empty string.
\<close>

theorem correlation_fields_sent_empty:
  "\<forall>call \<in> set (snd (fetch P request)).
     req_url call = merchant_pay_url P \<longrightarrow> empty_correlation_fields (req_body call)"
proof (intro ballI impI)
  fix call
  assume c: "call \<in> set (snd (fetch P request))" and u: "req_url call = merchant_pay_url P"
  from c have "call \<in> set (snd (route P request))"
    by (simp add: fetch_calls split: if_splits)
  then have "req_url call = token_url P \<or> empty_correlation_fields (req_body call)"
    by (rule route_calls)
  with u urls_differ [of P] show "empty_correlation_fields (req_body call)"
    by auto
qed

text \<open>
  C1 at a POST to \<open>/payment\<close> whose three correlation fields are not empty: the second
  outbound call goes to the merchant-pay endpoint, with the three fields empty.
\<close>

theorem correlation_fields_sent_empty_witness:
  "get_prop demo_payment ''requestDate'' = Inr (Str ''2024-01-01T00:00:00.000Z'') \<and>
   get_prop demo_payment ''requestingOrganisationTransactionReference'' = Inr (Str ''ref-1'') \<and>
   get_prop demo_payment ''originalTransactionReference'' = Inr (Str ''ref-0'') \<and>
   length (snd (fetch demo_platform (demo_request ''POST'' ''/payment'' (Inr demo_payment)))) = 2 \<and>
   req_url (snd (fetch demo_platform (demo_request ''POST'' ''/payment'' (Inr demo_payment))) ! 1) =
     merchant_pay_url demo_platform \<and>
   empty_correlation_fields
     (req_body (snd (fetch demo_platform (demo_request ''POST'' ''/payment'' (Inr demo_payment))) ! 1))"
proof -
  let ?calls = "snd (fetch demo_platform (demo_request ''POST'' ''/payment'' (Inr demo_payment)))"
  have g: "get_prop demo_payment ''requestDate'' = Inr (Str ''2024-01-01T00:00:00.000Z'') \<and>
      get_prop demo_payment ''requestingOrganisationTransactionReference'' = Inr (Str ''ref-1'') \<and>
      get_prop demo_payment ''originalTransactionReference'' = Inr (Str ''ref-0'')"
    by (simp add: demo_payment_def)
  have n: "length ?calls = 2"
    by code_simp
  have u: "req_url (?calls ! 1) = merchant_pay_url demo_platform"
    by code_simp
  from n have "?calls ! 1 \<in> set ?calls"
    by simp
  with correlation_fields_sent_empty [of demo_platform "demo_request ''POST'' ''/payment'' (Inr demo_payment)"] u
  have "empty_correlation_fields (req_body (?calls ! 1))"
    by blast
  with g n u show ?thesis
    by blast
qed

text \<open>
  C4, as amended. After a successful authentication, a POST to \<open>/payment\<close> whose
  \<open>debitParty\<close> list is empty makes the header \<open>UserAccountIdentifier\<close> raise a TypeError
  inside the \<open>try\<close> block of \<open>initiateMvolaPayment\<close>. That function's own \<open>catch\<close> turns
  it into the result \<open>{status: 500, data: {error: message}}\<close>, which the handler sends as
  it is, with status 500; the merchant-pay endpoint is not called. The message is that of the
  TypeError whenever the access token is a string.
\<close>

theorem empty_debit_party_is_caught_inside:
  assumes "request_method request = ''POST''" and "pathname (url request) = ''/payment''"
    and "truthy (fst (authenticateMvola P))"
    and "json request = Inr (Obj kvs)" and "map_of kvs ''debitParty'' = Some (Arr [])"
  shows "\<exists>m. fetch P request =
           (Inr \<lparr>status = 500, headers = json_headers,
                 body = JsonText (Obj [(''status'', Num ''500''),
                                       (''data'', Obj [(''error'', Str m)])])\<rparr>,
            snd (authenticateMvola P)) \<and>
           (\<forall>t. get_prop (fst (authenticateMvola P)) ''access_token'' = Inr (Str t) \<longrightarrow>
              m = ''Cannot read properties of undefined (reading 'value')'') \<and>
           (\<forall>call \<in> set (snd (fetch P request)). req_url call \<noteq> merchant_pay_url P)"
proof -
  let ?p = "Obj (AList.update ''originalTransactionReference'' (Str [])
            (AList.update ''requestingOrganisationTransactionReference'' (Str [])
              (AList.update ''requestDate'' (Str []) kvs)))"
  obtain token where token: "get_prop (fst (authenticateMvola P)) ''access_token'' = Inr token"
    using assms(3) get_prop_truthy by blast
  have "map_of (AList.update ''originalTransactionReference'' (Str [])
            (AList.update ''requestingOrganisationTransactionReference'' (Str [])
              (AList.update ''requestDate'' (Str []) kvs))) ''debitParty'' = Some (Arr [])"
    using assms(5) by (simp add: update_conv')
  from payment_headers_no_debit_party [OF this, of P token]
  obtain e where e: "payment_headers P ?p token = Inl e"
    and m: "\<forall>t. token = Str t \<longrightarrow> e = Exn ''Cannot read properties of undefined (reading 'value')''"
    by blast
  have i: "initiateMvolaPayment P ?p token = (payment_error e, [])"
    using e by (simp add: initiateMvolaPayment_def)
  have f: "fetch P request =
           (Inr \<lparr>status = 500, headers = json_headers,
                 body = JsonText (Obj [(''status'', Num ''500''),
                                       (''data'', Obj [(''error'', Str (message e))])])\<rparr>,
            snd (authenticateMvola P))"
    using assms(1-4) token i
    by (simp add: fetch_def route_def payment_case_def case_prod_unfold bindE_def force_empty_Obj
        payment_error_def payment_result_object_def decimal_500 new_Response_Inr JSON_stringify_def)
  have "\<forall>call \<in> set (snd (fetch P request)). req_url call \<noteq> merchant_pay_url P"
    using authenticateMvola_calls [of _ P] urls_differ [of P] by (auto simp: f)
  with f m token show ?thesis
    by auto
qed

text \<open>
  The amended C4 at a PaymentRequest with \<open>debitParty: []\<close>, the token being \<open>abc123\<close>:
  the only outbound call is the one to the token endpoint.
\<close>

theorem empty_debit_party_is_caught_inside_witness:
  "truthy (fst (authenticateMvola demo_platform)) \<and>
   fetch demo_platform (demo_request ''POST'' ''/payment'' (Inr (Obj no_debit_party))) =
     (Inr \<lparr>status = 500, headers = json_headers,
           body = JsonText (Obj [(''status'', Num ''500''),
                    (''data'', Obj [(''error'',
                       Str ''Cannot read properties of undefined (reading 'value')'')])])\<rparr>,
      [token_request demo_platform ''a2V5OnNlY3JldA==''])"
proof -
  have a: "authenticateMvola demo_platform =
      (Obj [(''access_token'', Str ''abc123''), (''scope'', Str ''EXT_INT_MVOLA_SCOPE''),
            (''token_type'', Str ''Bearer''), (''expires_in'', Num ''3600'')],
       [token_request demo_platform ''a2V5OnNlY3JldA==''])"
    by (simp add: authenticateMvola_def demo_platform_def token_request_def token_url_def
        MVOLA_CONFIG_def ok_def)
  have d: "map_of no_debit_party ''debitParty'' = Some (Arr [])"
    by (simp add: no_debit_party_def)
  from empty_debit_party_is_caught_inside
    [of "demo_request ''POST'' ''/payment'' (Inr (Obj no_debit_party))" demo_platform no_debit_party]
    a d
  show ?thesis
    by (auto simp: demo_request_def)
qed

text \<open>
  C4 as it is stated fails at that request: the authentication succeeded, the
  \<open>debitParty\<close> list is empty, and the body of the answer is the result of
  \<open>initiateMvolaPayment\<close>, not the \<open>{error: "Internal server error", message}\<close> of
  the handler's \<open>catch\<close>.
\<close>

theorem empty_debit_party_not_internal_server_error:
  "request_method (demo_request ''POST'' ''/payment'' (Inr (Obj no_debit_party))) = ''POST'' \<and>
   pathname (url (demo_request ''POST'' ''/payment'' (Inr (Obj no_debit_party)))) = ''/payment'' \<and>
   truthy (fst (authenticateMvola demo_platform)) \<and>
   get_prop (Obj no_debit_party) ''debitParty'' = Inr (Arr []) \<and>
   fst (fetch demo_platform (demo_request ''POST'' ''/payment'' (Inr (Obj no_debit_party)))) =
     Inr \<lparr>status = 500, headers = json_headers,
          body = JsonText (Obj [(''status'', Num ''500''),
                   (''data'', Obj [(''error'',
                      Str ''Cannot read properties of undefined (reading 'value')'')])])\<rparr> \<and>
   fst (fetch demo_platform (demo_request ''POST'' ''/payment'' (Inr (Obj no_debit_party)))) \<noteq>
     Inr \<lparr>status = 500, headers = json_headers,
          body = JsonText (Obj [(''error'', Str ''Internal server error''),
                   (''message'',
                      Str ''Cannot read properties of undefined (reading 'value')'')])\<rparr>"
  by code_simp

end
